theory Spec2Isabelle
  imports Complex_Main
begin

section \<open>Numbers\<close>

text \<open>
  Python floats are modelled as real numbers: the development is about the
  arithmetic the predictor performs, not about binary rounding error.
  Python's \<^verbatim>\<open>min(a, b)\<close> returns \<^verbatim>\<open>b\<close> only when \<^verbatim>\<open>b < a\<close>, and \<^verbatim>\<open>max(a, b)\<close>
  returns \<^verbatim>\<open>b\<close> only when \<^verbatim>\<open>b > a\<close>; \<^verbatim>\<open>round(x, 1)\<close> rounds to the nearest tenth,
  a tie going to the even neighbour.
\<close>

definition py_min :: "real \<Rightarrow> real \<Rightarrow> real" where
  "py_min a b = (if b < a then b else a)"

definition py_max :: "real \<Rightarrow> real \<Rightarrow> real" where
  "py_max a b = (if b > a then b else a)"

definition round_half_even :: "real \<Rightarrow> int" where
  "round_half_even x =
     (let f = \<lfloor>x\<rfloor>; d = x - of_int f
      in if d < 1 / 2 then f
         else if d > 1 / 2 then f + 1
         else if even f then f else f + 1)"

definition py_round1 :: "real \<Rightarrow> real" where
  "py_round1 x = of_int (round_half_even (x * 10)) / 10"

section \<open>The predictor (\<^verbatim>\<open>tornado_predictor.py\<close>)\<close>

type_synonym reading = "string \<rightharpoonup> real"

text \<open>
  The fitted \<^verbatim>\<open>StandardScaler\<close>: its attributes \<^verbatim>\<open>mean_\<close> and \<^verbatim>\<open>scale_\<close>.
\<close>

record scaler =
  fitted_mean :: "real list"
  fitted_scale :: "real list"

text \<open>
  \<^verbatim>\<open>model_info.json\<close> is read as the record of the three keys that \<^verbatim>\<open>predict\<close>
  looks up (\<^verbatim>\<open>model_name\<close>, \<^verbatim>\<open>test_r2_score\<close>, \<^verbatim>\<open>test_rmse\<close>);
  \<^verbatim>\<open>save_model_artifacts\<close> of the trainer writes all three.
\<close>

record model_info =
  info_model_name :: string
  test_r2_score :: real
  test_rmse :: real

text \<open>
  The fitted model and the scaler are objects of the scikit-learn library, whose
  code is not part of the repository: their two methods are parameters of the
  model, total on rows of real numbers.
\<close>

record 'm sklearn =
  transform :: "scaler \<Rightarrow> real list \<Rightarrow> real list"
  model_predict :: "'m \<Rightarrow> real list \<Rightarrow> real"

record 'm TornadoPredictor =
  model :: 'm
  scaler :: scaler
  feature_names :: "string list"
  model_info :: model_info

record prediction =
  predicted_windspeed_mph :: real
  model_name :: string
  model_r2_score :: real
  model_rmse :: real
  confidence :: string
  features_used :: "string list"

definition canonical_feature_names :: "string list" where
  "canonical_feature_names =
     [''CAPE'', ''SRH'', ''Lapse_0_3km'', ''PWAT'', ''Temperature'', ''Dewpoint'',
      ''CAPE_3km'', ''Lapse_3_6km'', ''Surface_RH'', ''RH_700_500'',
      ''Storm_Motion'', ''Total_TVS_Peaks'']"

text \<open>\<^verbatim>\<open>d.get(key, default)\<close>\<close>

definition dict_get :: "reading \<Rightarrow> string \<Rightarrow> real \<Rightarrow> real" where
  "dict_get d k dflt = (case d k of None \<Rightarrow> dflt | Some v \<Rightarrow> v)"

text \<open>Lines 41 to 54 of \<^verbatim>\<open>predict\<close>: the feature row, in the order written.\<close>

definition features :: "reading \<Rightarrow> real list" where
  "features atmospheric_data =
     [dict_get atmospheric_data ''CAPE'' 0,
      dict_get atmospheric_data ''SRH'' 0,
      dict_get atmospheric_data ''Lapse_0_3km'' 0,
      dict_get atmospheric_data ''PWAT'' 0,
      dict_get atmospheric_data ''Temperature'' 0,
      dict_get atmospheric_data ''Dewpoint'' 0,
      dict_get atmospheric_data ''CAPE_3km'' 0,
      dict_get atmospheric_data ''Lapse_3_6km'' 0,
      dict_get atmospheric_data ''Surface_RH'' 0,
      dict_get atmospheric_data ''RH_700_500'' 0,
      dict_get atmospheric_data ''Storm_Motion'' 0,
      dict_get atmospheric_data ''Total_TVS_Peaks'' 0]"

text \<open>The raw prediction of line 60, before the bounds of line 63.\<close>

definition raw_prediction :: "'m sklearn \<Rightarrow> 'm TornadoPredictor \<Rightarrow> reading \<Rightarrow> real" where
  "raw_prediction lib self atmospheric_data =
     (let features_scaled = transform lib (scaler self) (features atmospheric_data)
      in model_predict lib (model self) features_scaled)"

definition predict :: "'m sklearn \<Rightarrow> 'm TornadoPredictor \<Rightarrow> reading \<Rightarrow> prediction" where
  "predict lib self atmospheric_data =
     (let prediction = raw_prediction lib self atmospheric_data;
          prediction = py_max 50 (py_min 400 prediction)
      in \<lparr>predicted_windspeed_mph = py_round1 prediction,
          model_name = info_model_name (model_info self),
          model_r2_score = test_r2_score (model_info self),
          model_rmse = test_rmse (model_info self),
          confidence = (if test_r2_score (model_info self) > 95 / 100
                        then ''EXCELLENT'' else ''GOOD''),
          features_used = feature_names self\<rparr>)"

text \<open>The loop of \<^verbatim>\<open>predict_batch\<close>: \<^verbatim>\<open>results\<close> grows by one \<^verbatim>\<open>append\<close> per record.\<close>

fun predict_batch_loop ::
  "'m sklearn \<Rightarrow> 'm TornadoPredictor \<Rightarrow> prediction list \<Rightarrow> reading list \<Rightarrow> prediction list" where
  "predict_batch_loop lib self results [] = results"
| "predict_batch_loop lib self results (data # data_list) =
     predict_batch_loop lib self (results @ [predict lib self data]) data_list"

definition predict_batch ::
  "'m sklearn \<Rightarrow> 'm TornadoPredictor \<Rightarrow> reading list \<Rightarrow> prediction list" where
  "predict_batch lib self data_list = predict_batch_loop lib self [] data_list"

text \<open>The clamp as the specification words it.\<close>

definition clamp_50_400 :: "real \<Rightarrow> real" where
  "clamp_50_400 x = (if x < 50 then 50 else if x > 400 then 400 else x)"

section \<open>Loading the predictor (\<^verbatim>\<open>TornadoPredictor.__init__\<close>)\<close>

text \<open>
  The files the constructor reads, by path: pickled models, pickled scalers and
  parsed JSON metadata. A path that is not in the map is a file that cannot be
  read; \<^verbatim>\<open>joblib.load\<close> and \<^verbatim>\<open>open\<close> raise there.
\<close>

datatype py_error = FileNotFoundError | IndexError

record 'm files =
  model_files :: "string \<rightharpoonup> 'm"
  scaler_files :: "string \<rightharpoonup> scaler"
  json_files :: "string \<rightharpoonup> model_info"

definition init :: "'m files \<Rightarrow> string \<Rightarrow> string \<Rightarrow> py_error + 'm TornadoPredictor" where
  "init fs model_path scaler_path =
     (case model_files fs model_path of
        None \<Rightarrow> Inl FileNotFoundError
      | Some m \<Rightarrow>
          (case scaler_files fs scaler_path of
             None \<Rightarrow> Inl FileNotFoundError
           | Some s \<Rightarrow>
               (case json_files fs ''model_info.json'' of
                  None \<Rightarrow> Inl FileNotFoundError
                | Some info \<Rightarrow>
                    Inr \<lparr>model = m, scaler = s,
                         feature_names = canonical_feature_names,
                         model_info = info\<rparr>)))"

section \<open>Exporting the kernel model (\<^verbatim>\<open>convert_model_to_json.py\<close>)\<close>

text \<open>
  The \<^verbatim>\<open>gamma\<close> attribute of a fitted \<^verbatim>\<open>SVR\<close> is the constructor argument: one of
  the names \<^verbatim>\<open>'scale'\<close> and \<^verbatim>\<open>'auto'\<close> (the only two in the trainer's grid) or a
  float. The attributes scikit-learn writes with a trailing underscore
  (\<^verbatim>\<open>mean_\<close>, \<^verbatim>\<open>scale_\<close>, \<^verbatim>\<open>intercept_\<close>, \<^verbatim>\<open>support_vectors_\<close>, \<^verbatim>\<open>dual_coef_\<close>) are the
  fields named \<open>fitted_...\<close> here; \<^verbatim>\<open>intercept_\<close> is an array and
  \<^verbatim>\<open>dual_coef_\<close> an array of rows.
\<close>

datatype gamma_param = GammaScale | GammaAuto | GammaValue real

record SVR =
  kernel :: string
  C :: real
  gamma :: gamma_param
  epsilon :: real
  fitted_intercept :: "real list"
  fitted_support_vectors :: "real list list"
  fitted_dual_coef :: "real list list"

datatype json = JString string | JNumber real | JArray "json list"

fun is_JNumber :: "json \<Rightarrow> bool" where
  "is_JNumber (JNumber x) = True"
| "is_JNumber j = False"

text \<open>\<^verbatim>\<open>xs[0]\<close>\<close>

definition index0 :: "'a list \<Rightarrow> py_error + 'a" where
  "index0 xs = (case xs of [] \<Rightarrow> Inl IndexError | x # rest \<Rightarrow> Inr x)"

text \<open>
  \<^verbatim>\<open>str(model.gamma)\<close>: a name is its own text; the text of a float is Python's,
  a parameter here.
\<close>

definition str_gamma :: "(real \<Rightarrow> string) \<Rightarrow> gamma_param \<Rightarrow> string" where
  "str_gamma float_str g =
     (case g of GammaScale \<Rightarrow> ''scale'' | GammaAuto \<Rightarrow> ''auto''
      | GammaValue v \<Rightarrow> float_str v)"

definition json_floats :: "real list \<Rightarrow> json" where
  "json_floats xs = JArray (map JNumber xs)"

text \<open>
  The dictionary \<^verbatim>\<open>model_data\<close>, which the function both writes to
  \<^verbatim>\<open>tornado_svm_model_export.json\<close> and returns, as the list of its items in
  insertion order. \<^verbatim>\<open>now\<close> is the text of \<^verbatim>\<open>datetime.now().isoformat()\<close>.
\<close>

definition convert_svm_model_to_json ::
  "(real \<Rightarrow> string) \<Rightarrow> string \<Rightarrow> SVR files \<Rightarrow> py_error + (string \<times> json) list" where
  "convert_svm_model_to_json float_str now fs =
     (case model_files fs ''tornado_svm_model.pkl'' of
        None \<Rightarrow> Inl FileNotFoundError
      | Some svm_model \<Rightarrow>
     (case scaler_files fs ''tornado_scaler.pkl'' of
        None \<Rightarrow> Inl FileNotFoundError
      | Some svm_scaler \<Rightarrow>
     (case index0 (fitted_intercept svm_model) of
        Inl e \<Rightarrow> Inl e
      | Inr intercept \<Rightarrow>
     (case index0 (fitted_dual_coef svm_model) of
        Inl e \<Rightarrow> Inl e
      | Inr dual_row \<Rightarrow>
          Inr [(''model_type'', JString ''SVR''),
               (''kernel'', JString (kernel svm_model)),
               (''C'', JNumber (C svm_model)),
               (''gamma'', JString (str_gamma float_str (gamma svm_model))),
               (''epsilon'', JNumber (epsilon svm_model)),
               (''intercept'', JNumber intercept),
               (''support_vectors'', JArray (map json_floats (fitted_support_vectors svm_model))),
               (''dual_coefficients'', json_floats dual_row),
               (''scaler_mean'', json_floats (fitted_mean svm_scaler)),
               (''scaler_scale'', json_floats (fitted_scale svm_scaler)),
               (''feature_names'', JArray (map JString canonical_feature_names)),
               (''export_date'', JString now),
               (''note'', JString ''SVM model trained with R2=0.9852, RMSE=4.61 mph'')]))))"

text \<open>A field of the exported dictionary; nothing when the export failed.\<close>

definition exported_field :: "string \<Rightarrow> py_error + (string \<times> json) list \<Rightarrow> json option" where
  "exported_field k res = (case res of Inl e \<Rightarrow> None | Inr model_data \<Rightarrow> map_of model_data k)"

section \<open>The inference engine of the specification\<close>

text \<open>
  The kernel regressor and the tree-ensemble regressor that predict from the
  exported arrays are not among the Python sources, which only write those
  arrays (\<^verbatim>\<open>convert_model_to_json.py\<close>, \<^verbatim>\<open>export_random_forest.py\<close>) for the
  JavaScript side. They are modelled from sections 3, 4.3, 4.4 and 7 of the
  specification.
\<close>

text \<open>
  Modelled from the spec: the error taxonomy of section 7; the engine that raises
  these errors is missing from the sources.
\<close>

datatype engine_error = LoadError | CorruptArtifact | ShapeMismatch


subsection \<open>Kernel regressor\<close>

text \<open>
  Modelled from the spec: the three kernel kinds of section 3; the engine that
  evaluates them is missing from the sources.
\<close>

datatype kernel_kind = Rbf | Poly | Linear

text \<open>
  Modelled from the spec: the kernel regressor artifact of section 3 (kernel
  kind, resolved gamma, degree and coef0, support vectors, dual coefficients,
  intercept); the engine that reads it is missing from the sources.
\<close>

record KernelRegressor =
  kr_kernel :: kernel_kind
  kr_gamma :: real
  kr_degree :: nat
  kr_coef0 :: real
  kr_support_vectors :: "real list list"
  kr_dual_coef :: "real list"
  kr_intercept :: real

text \<open>
  Modelled from the spec: the dot product \<open>sv \<cdot> x\<close> of section 4.3, whose
  implementation is missing from the sources.
\<close>

fun dot :: "real list \<Rightarrow> real list \<Rightarrow> real" where
  "dot (a # as) (b # bs) = a * b + dot as bs"
| "dot as bs = 0"

text \<open>
  Modelled from the spec: the squared distance \<open>||sv - x||\<^sup>2\<close> of section 4.3,
  whose implementation is missing from the sources.
\<close>

fun sq_dist :: "real list \<Rightarrow> real list \<Rightarrow> real" where
  "sq_dist (a # as) (b # bs) = (a - b) ^ 2 + sq_dist as bs"
| "sq_dist as bs = 0"

text \<open>
  Modelled from the spec: the kernel value \<open>K(sv, x)\<close> of section 4.3 for the
  three kernel kinds; its implementation is missing from the sources.
\<close>

definition kernel_value :: "KernelRegressor \<Rightarrow> real list \<Rightarrow> real list \<Rightarrow> real" where
  "kernel_value m sv x =
     (case kr_kernel m of
        Linear \<Rightarrow> dot sv x
      | Rbf \<Rightarrow> exp (- kr_gamma m * sq_dist sv x)
      | Poly \<Rightarrow> (kr_gamma m * dot sv x + kr_coef0 m) ^ kr_degree m)"

text \<open>
  Modelled from the spec: the accumulation \<open>sum_j dualCoef[j] * K(sv_j, x)\<close> of
  section 4.3 as a loop over the support vectors; its implementation is missing
  from the sources.
\<close>

fun kernel_sum :: "KernelRegressor \<Rightarrow> real list \<Rightarrow> real \<Rightarrow> real list list \<Rightarrow> real list \<Rightarrow> real" where
  "kernel_sum m x acc (sv # svs) (c # cs) = kernel_sum m x (acc + c * kernel_value m sv x) svs cs"
| "kernel_sum m x acc svs cs = acc"

text \<open>
  Modelled from the spec: \<^verbatim>\<open>KernelRegressor.predict\<close> of section 4.3, missing from
  the sources. A vector that has not 12 entries or not as many as each support
  vector is a ShapeMismatch; a dual-coefficient count other than the number of
  support vectors breaks the invariant of section 3 and is reported as
  CorruptArtifact.
\<close>

definition kernel_predict :: "KernelRegressor \<Rightarrow> real list \<Rightarrow> engine_error + real" where
  "kernel_predict m x =
     (if length x \<noteq> 12 \<or> \<not> list_all (\<lambda>sv. length sv = length x) (kr_support_vectors m)
      then Inl ShapeMismatch
      else if length (kr_dual_coef m) \<noteq> length (kr_support_vectors m)
      then Inl CorruptArtifact
      else Inr (kernel_sum m x 0 (kr_support_vectors m) (kr_dual_coef m) + kr_intercept m))"

subsection \<open>Tree ensemble regressor\<close>


















section \<open>Concrete inputs\<close>

text \<open>Readings, library stand-ins and predictors on which the theorems below are run.\<close>

definition ex_reading :: reading where
  "ex_reading = [''CAPE'' \<mapsto> 3500, ''SRH'' \<mapsto> 300, ''Lapse_0_3km'' \<mapsto> 17 / 2]"

definition ex_reading_extra :: reading where
  "ex_reading_extra = ex_reading(''station_id'' \<mapsto> 7)"

definition ex_lib :: "real list sklearn" where
  "ex_lib =
     \<lparr>transform = (\<lambda>s v. map2 (\<lambda>a (m, sd). (a - m) / sd) v (zip (fitted_mean s) (fitted_scale s))),
      model_predict = (\<lambda>w v. sum_list (map2 (*) w v))\<rparr>"

definition ex_info :: model_info where
  "ex_info = \<lparr>info_model_name = ''SVM'', test_r2_score = 9852 / 10000, test_rmse = 461 / 100\<rparr>"

definition ex_predictor :: "real list TornadoPredictor" where
  "ex_predictor =
     \<lparr>model = replicate 12 (1 / 100),
      scaler = \<lparr>fitted_mean = replicate 12 0, fitted_scale = replicate 12 1\<rparr>,
      feature_names = canonical_feature_names,
      model_info = ex_info\<rparr>"

definition const_lib :: "real sklearn" where
  "const_lib = \<lparr>transform = (\<lambda>s v. v), model_predict = (\<lambda>c v. c)\<rparr>"

definition const_predictor :: "real \<Rightarrow> real \<Rightarrow> real TornadoPredictor" where
  "const_predictor c r2 =
     \<lparr>model = c,
      scaler = \<lparr>fitted_mean = replicate 12 0, fitted_scale = replicate 12 1\<rparr>,
      feature_names = canonical_feature_names,
      model_info = \<lparr>info_model_name = ''SVM'', test_r2_score = r2, test_rmse = 461 / 100\<rparr>\<rparr>"

definition zero_scaler :: scaler where
  "zero_scaler = \<lparr>fitted_mean = replicate 12 0, fitted_scale = 0 # replicate 11 1\<rparr>"

definition zero_scale_files :: "real list files" where
  "zero_scale_files =
     \<lparr>model_files = [''tornado_svm_model.pkl'' \<mapsto> replicate 12 (1 / 100)],
      scaler_files = [''tornado_scaler.pkl'' \<mapsto> zero_scaler],
      json_files = [''model_info.json'' \<mapsto> ex_info]\<rparr>"

definition scale_gamma_svr :: SVR where
  "scale_gamma_svr =
     \<lparr>kernel = ''rbf'', C = 100, gamma = GammaScale, epsilon = 1 / 10,
      fitted_intercept = [150],
      fitted_support_vectors = [replicate 12 0, replicate 12 1],
      fitted_dual_coef = [[1, - 1]]\<rparr>"

definition svr_files :: "SVR files" where
  "svr_files =
     \<lparr>model_files = [''tornado_svm_model.pkl'' \<mapsto> scale_gamma_svr],
      scaler_files = [''tornado_scaler.pkl'' \<mapsto> \<lparr>fitted_mean = replicate 12 0, fitted_scale = replicate 12 1\<rparr>],
      json_files = Map.empty\<rparr>"

definition no_float_str :: "real \<Rightarrow> string" where
  "no_float_str v = ''<float>''"

definition ex_vector :: "real list" where
  "ex_vector = [3500, 300, 17 / 2, 3 / 2, 85, 65, 2000, 7, 65, 50, 45, 3]"

definition unit_rbf :: KernelRegressor where
  "unit_rbf =
     \<lparr>kr_kernel = Rbf, kr_gamma = 1, kr_degree = 3, kr_coef0 = 0,
      kr_support_vectors = [ex_vector], kr_dual_coef = [1], kr_intercept = 0\<rparr>"




section \<open>Rounding and clamping\<close>

lemma py_clamp_eq: "py_max 50 (py_min 400 x) = clamp_50_400 x"
  by (simp add: py_max_def py_min_def clamp_50_400_def)

lemma clamp_bounds: "50 \<le> clamp_50_400 x \<and> clamp_50_400 x \<le> 400"
  by (simp add: clamp_50_400_def)

lemma round_half_even_lower: "\<lfloor>x\<rfloor> \<le> round_half_even x"
  by (simp add: round_half_even_def Let_def)

lemma round_half_even_upper: "round_half_even x \<le> \<lceil>x\<rceil>"
proof (cases "x = of_int \<lfloor>x\<rfloor>")
  case True
  then have "x - of_int \<lfloor>x\<rfloor> = 0" by simp
  then have "round_half_even x = \<lfloor>x\<rfloor>"
    by (simp add: round_half_even_def Let_def)
  then show ?thesis by (simp add: floor_le_ceiling)
next
  case False
  then have "\<lceil>x\<rceil> = \<lfloor>x\<rfloor> + 1"
    by (metis ceiling_altdef)
  moreover have "round_half_even x \<le> \<lfloor>x\<rfloor> + 1"
    by (simp add: round_half_even_def Let_def)
  ultimately show ?thesis by simp
qed

lemma py_round1_bounds:
  assumes "50 \<le> x" and "x \<le> 400"
  shows "50 \<le> py_round1 x \<and> py_round1 x \<le> 400"
proof -
  have "(500::int) \<le> \<lfloor>x * 10\<rfloor>" using assms(1) by (simp add: le_floor_iff)
  then have lo: "500 \<le> round_half_even (x * 10)"
    using round_half_even_lower [of "x * 10"] by linarith
  have "\<lceil>x * 10\<rceil> \<le> (4000::int)" using assms(2) by (simp add: ceiling_le_iff)
  then have hi: "round_half_even (x * 10) \<le> 4000"
    using round_half_even_upper [of "x * 10"] by linarith
  have "(500::real) \<le> of_int (round_half_even (x * 10))"
    using lo by linarith
  moreover have "of_int (round_half_even (x * 10)) \<le> (4000::real)"
    using hi by linarith
  ultimately show ?thesis by (simp add: py_round1_def)
qed

lemma predict_batch_loop_eq:
  "predict_batch_loop lib self results data_list = results @ map (predict lib self) data_list"
  by (induction data_list arbitrary: results) simp_all

lemma features_cong:
  assumes "\<forall>k \<in> set canonical_feature_names. r1 k = r2 k"
  shows "features r1 = features r2"
  using assms by (simp add: features_def canonical_feature_names_def dict_get_def)

section \<open>Claims about the predictor\<close>

text \<open>
  C1. For every reading and every loaded predictor, the windspeed estimate that
  \<^verbatim>\<open>predict\<close> returns is the raw model prediction clamped into the closed interval
  from 50 to 400 (below 50 becomes 50, above 400 becomes 400) and then rounded to
  one decimal place, and it lies between 50 and 400.
\<close>

theorem predict_clamped_rounded:
  "predicted_windspeed_mph (predict lib self r)
     = py_round1 (clamp_50_400 (raw_prediction lib self r))
   \<and> 50 \<le> predicted_windspeed_mph (predict lib self r)
   \<and> predicted_windspeed_mph (predict lib self r) \<le> 400"
proof -
  have eq: "predicted_windspeed_mph (predict lib self r)
              = py_round1 (clamp_50_400 (raw_prediction lib self r))"
    by (simp add: predict_def Let_def py_clamp_eq)
  from clamp_bounds [of "raw_prediction lib self r"]
  have "50 \<le> py_round1 (clamp_50_400 (raw_prediction lib self r))
        \<and> py_round1 (clamp_50_400 (raw_prediction lib self r)) \<le> 400"
    by (intro py_round1_bounds) simp_all
  with eq show ?thesis by simp
qed

theorem predict_clamped_rounded_witness:
  "predicted_windspeed_mph (predict const_lib (const_predictor 10 (9 / 10)) ex_reading) = 50
   \<and> predicted_windspeed_mph (predict const_lib (const_predictor 1000 (9 / 10)) ex_reading) = 400
   \<and> predicted_windspeed_mph (predict const_lib (const_predictor (12346 / 100) (9 / 10)) ex_reading) = 1235 / 10"
  using predict_clamped_rounded [of const_lib "const_predictor 10 (9 / 10)" ex_reading]
    predict_clamped_rounded [of const_lib "const_predictor 1000 (9 / 10)" ex_reading]
    predict_clamped_rounded [of const_lib "const_predictor (12346 / 100) (9 / 10)" ex_reading]
  by (simp add: raw_prediction_def const_lib_def const_predictor_def clamp_50_400_def
      py_round1_def round_half_even_def Let_def)

text \<open>
  C2. For every reading, the feature row built by \<^verbatim>\<open>predict\<close> has exactly 12
  values in the canonical order (CAPE, SRH, Lapse_0_3km, PWAT, Temperature,
  Dewpoint, CAPE_3km, Lapse_3_6km, Surface_RH, RH_700_500, Storm_Motion,
  Total_TVS_Peaks): position \<open>i\<close> holds the reading's value for the \<open>i\<close>-th
  canonical key, and 0 when the reading has no such key. The row is a total
  function of the reading: missing and extra keys raise nothing.
\<close>

theorem features_canonical:
  assumes "i < 12"
  shows "length (features r) = 12
         \<and> features r ! i = (case r (canonical_feature_names ! i) of None \<Rightarrow> 0 | Some v \<Rightarrow> v)"
proof -
  have "features r = map (\<lambda>k. case r k of None \<Rightarrow> 0 | Some v \<Rightarrow> v) canonical_feature_names"
    by (simp add: features_def canonical_feature_names_def dict_get_def)
  moreover have "length canonical_feature_names = 12"
    by (simp add: canonical_feature_names_def)
  ultimately show ?thesis using assms by simp
qed

theorem features_canonical_witness:
  "(1::nat) < 12 \<and> length (features ex_reading) = 12
   \<and> features ex_reading ! 0 = 3500 \<and> features ex_reading ! 3 = 0"
  using features_canonical [of 0 ex_reading] features_canonical [of 3 ex_reading]
  by (simp add: canonical_feature_names_def ex_reading_def)

text \<open>
  C5. For every sequence of readings, \<^verbatim>\<open>predict_batch\<close> returns as many results as
  there are readings, equal element by element and in the same order to
  \<^verbatim>\<open>predict\<close> applied to each reading on its own.
\<close>

theorem predict_batch_map:
  "predict_batch lib self data_list = map (predict lib self) data_list
   \<and> length (predict_batch lib self data_list) = length data_list"
  by (simp add: predict_batch_def predict_batch_loop_eq)

text \<open>
  C6. The confidence label of every prediction is EXCELLENT exactly when the
  reported test R2 of the metadata is strictly greater than 0.95, and GOOD
  exactly when it is at most 0.95; there is no third label.
\<close>

theorem confidence_label:
  "(confidence (predict lib self r) = ''EXCELLENT'') = (test_r2_score (model_info self) > 95 / 100)
   \<and> (confidence (predict lib self r) = ''GOOD'') = (test_r2_score (model_info self) \<le> 95 / 100)"
  by (simp add: predict_def Let_def)

theorem confidence_label_witness:
  "confidence (predict const_lib (const_predictor 120 (9852 / 10000)) ex_reading) = ''EXCELLENT''
   \<and> confidence (predict const_lib (const_predictor 120 (90 / 100)) ex_reading) = ''GOOD''
   \<and> confidence (predict const_lib (const_predictor 120 (95 / 100)) ex_reading) = ''GOOD''
   \<and> confidence (predict const_lib (const_predictor 120 (- 3)) ex_reading) = ''GOOD''"
  using confidence_label [of const_lib "const_predictor 120 (9852 / 10000)" ex_reading]
    confidence_label [of const_lib "const_predictor 120 (90 / 100)" ex_reading]
    confidence_label [of const_lib "const_predictor 120 (95 / 100)" ex_reading]
    confidence_label [of const_lib "const_predictor 120 (- 3)" ex_reading]
  by (simp add: const_predictor_def)

text \<open>
  C10. Two readings that agree on the 12 canonical feature keys get identical
  predictions, whatever other keys they hold: the result depends only on the
  canonical keys and the loaded predictor.
\<close>

theorem predict_ignores_extra_keys:
  assumes "\<forall>k \<in> set canonical_feature_names. r1 k = r2 k"
  shows "predict lib self r1 = predict lib self r2"
  using features_cong [OF assms] by (simp add: predict_def raw_prediction_def)

theorem predict_ignores_extra_keys_witness:
  "list_all (\<lambda>k. ex_reading k = ex_reading_extra k) canonical_feature_names
   \<and> ex_reading ''station_id'' = None
   \<and> ex_reading_extra ''station_id'' = Some 7
   \<and> predict ex_lib ex_predictor ex_reading = predict ex_lib ex_predictor ex_reading_extra"
proof -
  have h: "\<forall>k \<in> set canonical_feature_names. ex_reading k = ex_reading_extra k"
    by (simp add: canonical_feature_names_def ex_reading_extra_def)
  have "ex_reading ''station_id'' = None \<and> ex_reading_extra ''station_id'' = Some 7"
    by (simp add: ex_reading_def ex_reading_extra_def)
  with h predict_ignores_extra_keys [OF h, of ex_lib ex_predictor] show ?thesis
    by (simp add: list_all_iff)
qed

section \<open>Claims about loading and exporting\<close>

text \<open>
  C7, as amended. The constructor does not inspect the scaler: whenever the model
  file, the scaler file and \<^verbatim>\<open>model_info.json\<close> can be read, it returns a predictor
  that holds the stored scaler unchanged, whatever the entries of its scale
  sequence are.
\<close>

theorem init_loads_any_scaler:
  assumes "model_files fs model_path = Some m"
    and "scaler_files fs scaler_path = Some s"
    and "json_files fs ''model_info.json'' = Some info"
  shows "init fs model_path scaler_path
           = Inr \<lparr>model = m, scaler = s, feature_names = canonical_feature_names,
                  model_info = info\<rparr>"
  using assms by (simp add: init_def)

theorem init_loads_any_scaler_witness:
  "model_files zero_scale_files ''tornado_svm_model.pkl'' = Some (replicate 12 (1 / 100))
   \<and> scaler_files zero_scale_files ''tornado_scaler.pkl'' = Some zero_scaler
   \<and> json_files zero_scale_files ''model_info.json'' = Some ex_info
   \<and> scaler (projr (init zero_scale_files ''tornado_svm_model.pkl'' ''tornado_scaler.pkl'')) = zero_scaler"
proof -
  have a: "model_files zero_scale_files ''tornado_svm_model.pkl'' = Some (replicate 12 (1 / 100))"
    by (simp add: zero_scale_files_def)
  have b: "scaler_files zero_scale_files ''tornado_scaler.pkl'' = Some zero_scaler"
    by (simp add: zero_scale_files_def)
  have c: "json_files zero_scale_files ''model_info.json'' = Some ex_info"
    by (simp add: zero_scale_files_def)
  from init_loads_any_scaler [OF a b c] a b c show ?thesis by simp
qed

text \<open>
  C7 as stated (a scale entry that is not positive makes loading fail) does not
  hold: a scaler whose first scale entry is 0 loads into a predictor.
\<close>

theorem init_accepts_zero_scale:
  "0 \<in> set (fitted_scale zero_scaler)
   \<and> init zero_scale_files ''tornado_svm_model.pkl'' ''tornado_scaler.pkl''
       = Inr \<lparr>model = replicate 12 (1 / 100), scaler = zero_scaler,
              feature_names = canonical_feature_names, model_info = ex_info\<rparr>"
  by (simp add: init_def zero_scale_files_def zero_scaler_def)

text \<open>
  C9, as amended. In every exported kernel-model dictionary the \<^verbatim>\<open>gamma\<close> field is
  a string, the text \<^verbatim>\<open>str(model.gamma)\<close> of the model's training-time setting:
  the name \<^verbatim>\<open>scale\<close> or \<^verbatim>\<open>auto\<close> when the model was fitted with one, the text of
  the float otherwise. It is never a JSON number.
\<close>

theorem exported_gamma_is_string:
  assumes "convert_svm_model_to_json float_str now fs = Inr model_data"
    and "model_files fs ''tornado_svm_model.pkl'' = Some m"
  shows "map_of model_data ''gamma''
           = Some (JString (case gamma m of GammaScale \<Rightarrow> ''scale'' | GammaAuto \<Rightarrow> ''auto''
                            | GammaValue v \<Rightarrow> float_str v))"
  using assms
  by (auto simp: convert_svm_model_to_json_def str_gamma_def
      split: option.splits sum.splits)

theorem exported_gamma_is_string_witness:
  "convert_svm_model_to_json no_float_str ''2025-01-01T00:00:00'' svr_files
     = Inr (projr (convert_svm_model_to_json no_float_str ''2025-01-01T00:00:00'' svr_files))
   \<and> model_files svr_files ''tornado_svm_model.pkl'' = Some scale_gamma_svr
   \<and> map_of (projr (convert_svm_model_to_json no_float_str ''2025-01-01T00:00:00'' svr_files)) ''gamma''
       = Some (JString ''scale'')"
proof -
  have a: "convert_svm_model_to_json no_float_str ''2025-01-01T00:00:00'' svr_files
     = Inr (projr (convert_svm_model_to_json no_float_str ''2025-01-01T00:00:00'' svr_files))"
    by (simp add: convert_svm_model_to_json_def svr_files_def scale_gamma_svr_def index0_def)
  have b: "model_files svr_files ''tornado_svm_model.pkl'' = Some scale_gamma_svr"
    by (simp add: svr_files_def)
  have "gamma scale_gamma_svr = GammaScale" by (simp add: scale_gamma_svr_def)
  with exported_gamma_is_string [OF a b] a b show ?thesis by simp
qed

text \<open>
  C9 as stated (the field is the resolved number, not a symbolic setting) does
  not hold: a model fitted with \<^verbatim>\<open>gamma='scale'\<close> is exported with the string
  \<^verbatim>\<open>scale\<close>.
\<close>

theorem exported_gamma_symbolic:
  "exported_field ''gamma'' (convert_svm_model_to_json no_float_str ''2025-01-01T00:00:00'' svr_files)
     = Some (JString ''scale'')
   \<and> \<not> is_JNumber (JString ''scale'')"
  by (simp add: exported_field_def convert_svm_model_to_json_def svr_files_def
      scale_gamma_svr_def index0_def str_gamma_def)

section \<open>Claims about the inference engine\<close>

subsection \<open>Sums over the support vectors\<close>

lemma sq_dist_sum:
  "length a = length b \<Longrightarrow> sq_dist a b = (\<Sum>i<length a. (a ! i - b ! i) ^ 2)"
proof (induction a b rule: list_induct2)
  case Nil
  then show ?case by simp
next
  case (Cons x xs y ys)
  then show ?case by (simp add: sum.lessThan_Suc_shift del: sum.lessThan_Suc)
qed

lemma sq_dist_self: "sq_dist x x = 0"
  by (induction x) simp_all

lemma kernel_sum_eq:
  "length svs = length cs \<Longrightarrow>
   kernel_sum m x acc svs cs = acc + (\<Sum>j<length svs. cs ! j * kernel_value m (svs ! j) x)"
proof (induction svs cs arbitrary: acc rule: list_induct2)
  case Nil
  then show ?case by simp
next
  case (Cons sv svs c cs)
  then show ?case by (simp add: sum.lessThan_Suc_shift add.assoc del: sum.lessThan_Suc)
qed

subsection \<open>Traversal\<close>











subsection \<open>Reads stay within the arrays\<close>




subsection \<open>A traversal that never returns\<close>




subsection \<open>The claims\<close>

text \<open>
  C3. The kernel regressor's prediction is the sum over the support vectors
  \<open>j\<close> of \<open>dualCoef[j] * K(sv_j, x)\<close> plus the intercept, where for the rbf
  kernel \<open>K(sv_j, x) = exp(-gamma * ||sv_j - x||\<^sup>2)\<close>. So a regressor with the
  single support vector \<open>x\<close>, dual coefficient 1, intercept 0, rbf kernel and
  gamma 1 predicts exactly 1 at \<open>x\<close>. The vector and the support vectors have
  12 entries and there is one dual coefficient per support vector, as the data
  model requires.
\<close>

theorem kernel_predict_sum:
  assumes "length x = 12"
    and "list_all (\<lambda>sv. length sv = 12) (kr_support_vectors m)"
    and "length (kr_dual_coef m) = length (kr_support_vectors m)"
  shows "kernel_predict m x
           = Inr ((\<Sum>j<length (kr_support_vectors m).
                     kr_dual_coef m ! j * kernel_value m (kr_support_vectors m ! j) x)
                  + kr_intercept m)
         \<and> (kr_kernel m = Rbf \<longrightarrow>
              (\<forall>j<length (kr_support_vectors m).
                 kernel_value m (kr_support_vectors m ! j) x
                   = exp (- kr_gamma m * (\<Sum>i<12. (kr_support_vectors m ! j ! i - x ! i) ^ 2))))
         \<and> kernel_predict
              \<lparr>kr_kernel = Rbf, kr_gamma = 1, kr_degree = d, kr_coef0 = c0,
               kr_support_vectors = [x], kr_dual_coef = [1], kr_intercept = 0\<rparr> x = Inr 1"
proof (intro conjI impI allI)
  show "kernel_predict m x
           = Inr ((\<Sum>j<length (kr_support_vectors m).
                     kr_dual_coef m ! j * kernel_value m (kr_support_vectors m ! j) x)
                  + kr_intercept m)"
    using assms by (simp add: kernel_predict_def kernel_sum_eq)
next
  fix j
  assume rbf: "kr_kernel m = Rbf" and j: "j < length (kr_support_vectors m)"
  from assms(2) j have "length (kr_support_vectors m ! j) = 12"
    by (simp add: list_all_length)
  with assms(1) have "sq_dist (kr_support_vectors m ! j) x
                        = (\<Sum>i<12. (kr_support_vectors m ! j ! i - x ! i) ^ 2)"
    using sq_dist_sum [of "kr_support_vectors m ! j" x] by simp
  with rbf show "kernel_value m (kr_support_vectors m ! j) x
                   = exp (- kr_gamma m * (\<Sum>i<12. (kr_support_vectors m ! j ! i - x ! i) ^ 2))"
    by (simp add: kernel_value_def)
next
  show "kernel_predict
              \<lparr>kr_kernel = Rbf, kr_gamma = 1, kr_degree = d, kr_coef0 = c0,
               kr_support_vectors = [x], kr_dual_coef = [1], kr_intercept = 0\<rparr> x = Inr 1"
    using assms(1) by (simp add: kernel_predict_def kernel_value_def sq_dist_self)
qed

theorem kernel_predict_sum_witness:
  "length ex_vector = 12
   \<and> list_all (\<lambda>sv. length sv = 12) (kr_support_vectors unit_rbf)
   \<and> length (kr_dual_coef unit_rbf) = length (kr_support_vectors unit_rbf)
   \<and> kr_kernel unit_rbf = Rbf
   \<and> kernel_predict unit_rbf ex_vector = Inr 1"
proof -
  have a: "length ex_vector = 12" by (simp add: ex_vector_def)
  have b: "list_all (\<lambda>sv. length sv = 12) (kr_support_vectors unit_rbf)"
    by (simp add: unit_rbf_def ex_vector_def)
  have c: "length (kr_dual_coef unit_rbf) = length (kr_support_vectors unit_rbf)"
    by (simp add: unit_rbf_def)
  have d: "kr_kernel unit_rbf = Rbf" by (simp add: unit_rbf_def)
  from kernel_predict_sum [OF a b c, of 3 0]
  have "kernel_predict unit_rbf ex_vector = Inr 1" by (simp add: unit_rbf_def)
  with a b c d show ?thesis by simp
qed






end
